theory Spec2Isabelle
  imports Main "HOL-Library.Word" "HOL-Library.Char_ord" "HOL-Library.List_Lexorder"
    "HOL-Library.Multiset"
begin

section \<open>The meta partition commands of the command line tool\<close>

text \<open>
  The development follows \<^verbatim>\<open>cli/cmd/metapartition.go\<close>: the partition check
  \<^verbatim>\<open>checkMetaPartition\<close>, the sweep \<^verbatim>\<open>checkAllMetaPartitions\<close> and the
  \<^verbatim>\<open>Run\<close> closure of \<^verbatim>\<open>newListCorruptMetaPartitionCmd\<close>.
\<close>

subsection \<open>Data\<close>

text \<open>
  A Go \<^verbatim>\<open>error\<close> is kept by the text that \<^verbatim>\<open>%v\<close> prints for it. The structs of
  package \<^verbatim>\<open>proto\<close> are declared outside this file; the records below hold the fields
  this file reads. Partition identifiers are \<^verbatim>\<open>uint64\<close> (the parameter type of
  \<^verbatim>\<open>checkMetaPartition\<close>). The widths of \<^verbatim>\<open>ReplicaNum\<close>, \<^verbatim>\<open>Status\<close> and of a node's
  \<^verbatim>\<open>ID\<close> are not visible here, no arithmetic is done on them, and they are integers.
  \<^verbatim>\<open>MissNodes\<close> is read through \<^verbatim>\<open>len\<close> only and is kept as its list of entries.
\<close>

type_synonym error = string

record MetaNodeInfo =
  ID :: int
  Addr :: string

record MetaPartitionView =
  PartitionID :: "64 word"

record Peer =
  Addr :: string

record MNMetaPartitionInfo =
  Peers :: "Peer list"

record MetaReplicaInfo =
  Addr :: string

record MetaPartitionInfo =
  PartitionID :: "64 word"
  Replicas :: "MetaReplicaInfo list"
  ReplicaNum :: int
  Status :: int
  Hosts :: "string list"
  MissNodes :: "(string \<times> int) list"

record MetaPartitionDiagnosis =
  InactiveMetaNodes :: "string list"
  CorruptMetaPartitionIDs :: "64 word list"
  LackReplicaMetaPartitionIDs :: "64 word list"

record VolInfo =
  Name :: string
  Owner :: string

record VolView =
  MetaPartitions :: "MetaPartitionView list"

text \<open>
  The master client answers the calls below. A call that returns a pointer and an error
  is a sum, \<open>Inl\<close> the error; \<^verbatim>\<open>GetMetaPartition\<close> may succeed with a nil pointer, which
  the code tests for. The error of \<^verbatim>\<open>GetMetaNode\<close> is assigned and never read, so that
  call is kept by the pointer it returns.
\<close>

record MasterClient =
  GetMetaPartition :: "64 word \<Rightarrow> error + MetaPartitionInfo option"
  MetaNodeGetPartition :: "string \<Rightarrow> 64 word \<Rightarrow> error + MNMetaPartitionInfo"
  DiagnoseMetaPartition :: "error + MetaPartitionDiagnosis"
  GetMetaNode :: "string \<Rightarrow> MetaNodeInfo option"
  ListVols :: "string \<Rightarrow> error + VolInfo list"
  GetVolume :: "string \<Rightarrow> string \<Rightarrow> error + VolView"

text \<open>The calls made on the client, in the order the code makes them.\<close>

datatype rpc =
    GetMetaPartitionCall "64 word"
  | MetaNodeGetPartitionCall string "64 word"
  | DiagnoseMetaPartitionCall
  | GetMetaNodeCall string
  | ListVolsCall string
  | GetVolumeCall string string

text \<open>
  What is written, to a \<^verbatim>\<open>strings.Builder\<close> or to the standard output. The patterns
  \<^verbatim>\<open>partitionInfoColorTablePattern\<close> and the formatters \<^verbatim>\<open>formatMetaPartitionInfoRow\<close>,
  \<^verbatim>\<open>formatMetaNodeDetail\<close>, \<^verbatim>\<open>formatMetaNodeDetailTableHeader\<close> and \<^verbatim>\<open>stdoutGreen\<close>
  are declared elsewhere in the package: a write that goes through one of them is kept
  with the arguments it hands over. \<open>ColorRow\<close> is
  \<^verbatim>\<open>Sprintf(partitionInfoColorTablePattern+"\n", ...)\<close> with its six columns, \<open>InfoRow\<close>
  is \<^verbatim>\<open>Sprintf("%v\n", formatMetaPartitionInfoRow(partition))\<close>. \<open>Printf s\<close> is
  \<^verbatim>\<open>fmt.Printf(s)\<close> with no operand, the string \<open>s\<close> being given by the writes that
  made it: \<open>s\<close> is the format, so what reaches the output is \<open>s\<close> as \<^verbatim>\<open>Printf\<close> renders
  it, with every formatting verb that \<open>s\<close> holds rewritten.
\<close>

datatype item =
    Text string
  | InfoRow "MetaPartitionInfo option"
  | ColorRow string string string string string string
  | NodeDetailTableHeader
  | NodeDetail "MetaNodeInfo option"
  | Green string
  | Printf "item list"

subsection \<open>Formatting of the standard library\<close>

text \<open>The decimal digit of a number below ten.\<close>

definition digit :: "nat \<Rightarrow> char" where
  "digit d = ''0123456789'' ! d"

function string_of_nat :: "nat \<Rightarrow> string" where
  "string_of_nat n = (if n < 10 then [digit n] else string_of_nat (n div 10) @ [digit (n mod 10)])"
  by pat_completeness auto
termination
  by (relation "measure id") auto

text \<open>\<^verbatim>\<open>%v\<close> of an integer.\<close>

definition string_of_int :: "int \<Rightarrow> string" where
  "string_of_int i = (if i < 0 then CHR ''-'' # string_of_nat (nat (- i)) else string_of_nat (nat i))"

text \<open>\<^verbatim>\<open>strings.Join\<close>.\<close>

fun Join :: "string list \<Rightarrow> string \<Rightarrow> string" where
  "Join [] sep = []"
| "Join [s] sep = s"
| "Join (s # t # ss) sep = s @ sep @ Join (t # ss) sep"

text \<open>\<^verbatim>\<open>strings.Repeat\<close>.\<close>

definition Repeat :: "string \<Rightarrow> nat \<Rightarrow> string" where
  "Repeat s n = concat (replicate n s)"

text \<open>\<^verbatim>\<open>strings.Split(s, ":")[0]\<close>: the part of \<open>s\<close> before its first colon, all of it when there is none.\<close>

definition hostOf :: "string \<Rightarrow> string" where
  "hostOf s = takeWhile (\<lambda>c. c \<noteq> CHR '':'') s"

text \<open>\<^verbatim>\<open>%-8v\<close> of a string: padded with spaces on the right to eight characters.\<close>

definition pad8 :: "string \<Rightarrow> string" where
  "pad8 s = s @ replicate (8 - length s) (CHR '' '')"

definition ESC :: char where
  "ESC = CHR 0x1B"

definition NL :: char where
  "NL = CHR 0x0A"

subsection \<open>Helpers of the package that this file calls\<close>

text \<open>
  Modelled from the spec: \<^verbatim>\<open>convertPeersToArray\<close> is declared outside this file. The
  spec's peer view is the list of the peers' addresses, which is also how the listing in
  this file builds \<^verbatim>\<open>mnHosts\<close> from \<^verbatim>\<open>mnPartition.Peers\<close>.
\<close>

definition convertPeersToArray :: "Peer list \<Rightarrow> string list" where
  "convertPeersToArray peers = map Peer.Addr peers"

text \<open>
  Modelled from the spec: \<^verbatim>\<open>isEqualStrings\<close> is declared outside this file. The spec
  has the sorted peer view compared against the sorted hosts for set equality.
\<close>

definition isEqualStrings :: "string list \<Rightarrow> string list \<Rightarrow> bool" where
  "isEqualStrings strs1 strs2 = (set strs1 = set strs2)"

subsection \<open>checkMetaPartition\<close>

text \<open>
  The variables of \<^verbatim>\<open>checkMetaPartition\<close> at its return: the named results
  \<^verbatim>\<open>outPut\<close>, \<^verbatim>\<open>isHealthy\<close> and \<^verbatim>\<open>err\<close>, the builder \<^verbatim>\<open>sb\<close> (the writes made
  to it, in order; the empty list is the empty string), and the calls made on the client.
\<close>

record check =
  outPut :: "item list"
  isHealthy :: bool
  err :: "error option"
  sb :: "item list"
  calls :: "rpc list"

text \<open>The red line of the master's report, \<^verbatim>\<open>Sprintf("\033[1;40;31m%-8v\033[0m\n", errMsg)\<close>.\<close>

definition unhealthyMsg :: item where
  "unhealthyMsg =
     Text (ESC # ''[1;40;31m''
       @ pad8 ''The partition is unhealthy according to the report message from master''
       @ ESC # ''[0m'' @ [NL])"

text \<open>
  The body of the loop over \<^verbatim>\<open>partition.Replicas\<close>; \<open>partition\<close> is the record after
  \<^verbatim>\<open>sort.Strings(partition.Hosts)\<close>. The \<^verbatim>\<open>err\<close> of the loop is a variable of its own.
\<close>

definition checkReplica :: "MasterClient \<Rightarrow> MetaPartitionInfo \<Rightarrow> check \<Rightarrow> MetaReplicaInfo \<Rightarrow> check" where
  "checkReplica client partition' st r =
     (let addr = hostOf (MetaReplicaInfo.Addr r);
          st = st\<lparr>calls := calls st @ [MetaNodeGetPartitionCall addr (MetaPartitionInfo.PartitionID partition')]\<rparr>
      in case MetaNodeGetPartition client addr (MetaPartitionInfo.PartitionID partition') of
           Inl e \<Rightarrow>
             st\<lparr>sb := sb st @ [ColorRow [] [] [] (MetaReplicaInfo.Addr r)
                      (''nil'' @ ''/'' @ string_of_int (ReplicaNum partition'))
                      (''get partition info failed, err:'' @ e)],
                isHealthy := False\<rparr>
         | Inr mnPartition \<Rightarrow>
             (let peerStrings = sort (convertPeersToArray (Peers mnPartition));
                  st = st\<lparr>sb := sb st @ [ColorRow [] [] [] (MetaReplicaInfo.Addr r @ ''(peers)'')
                      (string_of_nat (length peerStrings) @ ''/'' @ string_of_int (ReplicaNum partition'))
                      (Join peerStrings ''; '')]\<rparr>;
                  st = (if \<not> isEqualStrings (Hosts partition') peerStrings
                        then st\<lparr>isHealthy := False\<rparr> else st)
              in if int (length peerStrings) \<noteq> ReplicaNum partition'
                 then st\<lparr>isHealthy := False\<rparr> else st))"

definition checkMetaPartition :: "64 word \<Rightarrow> MasterClient \<Rightarrow> check" where
  "checkMetaPartition pid client =
     (let st = \<lparr>outPut = [], isHealthy = True, err = None, sb = [],
                calls = [GetMetaPartitionCall pid]\<rparr>
      in case GetMetaPartition client pid of
           Inl e \<Rightarrow>
             st\<lparr>err := Some e, sb := [Text (''Partition is not found, err:['' @ e @ '']'')]\<rparr>
         | Inr None \<Rightarrow> st
         | Inr (Some partition') \<Rightarrow>
             (let st = st\<lparr>sb := [InfoRow (Some partition')]\<rparr>;
                  partition' = partition'\<lparr>Hosts := sort (Hosts partition')\<rparr>;
                  st = (if 0 < length (MissNodes partition') \<or> Status partition' = - 1
                           \<or> int (length (Hosts partition')) \<noteq> ReplicaNum partition'
                        then st\<lparr>sb := sb st @ [unhealthyMsg], isHealthy := False\<rparr> else st);
                  st = foldl (checkReplica client partition') st (Replicas partition')
              in st\<lparr>outPut := sb st\<rparr>))"

subsection \<open>checkAllMetaPartitions\<close>

text \<open>
  Declarations of the package that the file reads and that are made elsewhere: the
  header line of the partition table and the key derived from a volume's owner.
\<close>

record Package =
  partitionInfoTableHeader :: string
  calcAuthKey :: "string \<Rightarrow> string"

text \<open>
  The body of the goroutine started for one partition of a volume: what it writes to the
  standard output, in order: \<^verbatim>\<open>fmt.Printf(outPut)\<close>, the report being the format, and
  then \<^verbatim>\<open>stdoutGreen\<close> of the separator line.
\<close>

definition checkTask :: "Package \<Rightarrow> MasterClient \<Rightarrow> MetaPartitionView \<Rightarrow> item list" where
  "checkTask pkg client mp =
     (let st = checkMetaPartition (MetaPartitionView.PartitionID mp) client
      in if \<not> isHealthy st
         then [Printf (outPut st),
               Green (Repeat ''_ '' (length (partitionInfoTableHeader pkg) div 2 + 20) @ [NL])]
         else [])"

text \<open>
  The goroutines of one volume run concurrently and are joined by \<^verbatim>\<open>wg.Wait()\<close>: the
  output of the volume is any interleaving of the tasks' outputs that keeps each task's
  own order.
\<close>

fun interleavings :: "'a list list \<Rightarrow> 'a list set" where
  "interleavings [] = {[]}"
| "interleavings (t # ts) = (\<Union>r \<in> interleavings ts. shuffles t r)"

definition checkVolume :: "Package \<Rightarrow> MasterClient \<Rightarrow> VolView \<Rightarrow> item list set" where
  "checkVolume pkg client volView =
     interleavings (map (checkTask pkg client)
       (sort_key MetaPartitionView.PartitionID (MetaPartitions volView)))"




subsection \<open>The check command without \<^verbatim>\<open>--all\<close>\<close>

text \<open>
  What the \<^verbatim>\<open>Run\<close> closure has written to the standard output and the calls it has made.
  A run goes on, returns, or panics on a nil pointer.
\<close>

record run =
  out :: "item list"
  rpcs :: "rpc list"

datatype flow = Continue run | Return run | Panic run

fun andThen :: "flow \<Rightarrow> (run \<Rightarrow> flow) \<Rightarrow> flow" where
  "andThen (Continue st) f = f st"
| "andThen (Return st) f = Return st"
| "andThen (Panic st) f = Panic st"

text \<open>
  The inactive nodes: the addresses are sorted, each node is fetched, the nodes are sorted
  by \<^verbatim>\<open>ID\<close> (stably) and printed. A node that could not be fetched is a nil pointer; the
  comparison \<^verbatim>\<open>metaNodes[i].ID < metaNodes[j].ID\<close> reads every element of a slice of two
  or more, and panics on it. A single nil node is handed to \<^verbatim>\<open>formatMetaNodeDetail\<close>.
\<close>

definition listInactiveMetaNodes :: "MasterClient \<Rightarrow> string list \<Rightarrow> run \<Rightarrow> flow" where
  "listInactiveMetaNodes client addrs st =
     (let st = st\<lparr>rpcs := rpcs st @ map GetMetaNodeCall addrs\<rparr>;
          metaNodes = map (GetMetaNode client) addrs
      in case those metaNodes of
           Some nodes \<Rightarrow>
             Continue (st\<lparr>out := out st @ map (\<lambda>node. NodeDetail (Some node)) (sort_key ID nodes)\<rparr>)
         | None \<Rightarrow>
             if length metaNodes < 2
             then Continue (st\<lparr>out := out st @ map NodeDetail metaNodes\<rparr>)
             else Panic st)"

text \<open>The corrupt partitions: the first partition that cannot be fetched ends the command.\<close>

fun listCorruptMetaPartitions :: "MasterClient \<Rightarrow> 64 word list \<Rightarrow> run \<Rightarrow> flow" where
  "listCorruptMetaPartitions client [] st = Continue st"
| "listCorruptMetaPartitions client (pid # pids) st =
     (let st = st\<lparr>rpcs := rpcs st @ [GetMetaPartitionCall pid]\<rparr>
      in case GetMetaPartition client pid of
           Inl e \<Rightarrow> Return (st\<lparr>out := out st @ [Text (''Partition not found, err:['' @ e @ '']'')]\<rparr>)
         | Inr partition' \<Rightarrow>
             listCorruptMetaPartitions client pids (st\<lparr>out := out st @ [InfoRow partition']\<rparr>))"

text \<open>The row of one replica in the listing of the partitions that lack replicas.\<close>

definition listReplica :: "MasterClient \<Rightarrow> MetaPartitionInfo \<Rightarrow> run \<Rightarrow> MetaReplicaInfo \<Rightarrow> run" where
  "listReplica client partition' st r =
     (let addr = hostOf (MetaReplicaInfo.Addr r);
          st = st\<lparr>rpcs := rpcs st @ [MetaNodeGetPartitionCall addr (MetaPartitionInfo.PartitionID partition')]\<rparr>
      in case MetaNodeGetPartition client addr (MetaPartitionInfo.PartitionID partition') of
           Inl e \<Rightarrow>
             st\<lparr>out := out st @ [ColorRow [] [] [] (MetaReplicaInfo.Addr r)
                      (string_of_nat 0 @ ''/'' @ string_of_int (ReplicaNum partition'))
                      ''no data'']\<rparr>
         | Inr mnPartition \<Rightarrow>
             (let mnHosts = sort (map Peer.Addr (Peers mnPartition))
              in st\<lparr>out := out st @ [ColorRow [] [] [] (MetaReplicaInfo.Addr r)
                      (string_of_nat (length (Peers mnPartition)) @ ''/''
                         @ string_of_int (ReplicaNum partition'))
                      (Join mnHosts ''; '')]\<rparr>))"

text \<open>The green line after a partition, \<^verbatim>\<open>Printf("\033[1;40;32m%-8v\033[0m", ...)\<close>.\<close>

definition replicaSeparator :: "Package \<Rightarrow> item" where
  "replicaSeparator pkg =
     Text (ESC # ''[1;40;32m''
       @ pad8 (Repeat ''_ '' (length (partitionInfoTableHeader pkg) div 2 + 5) @ [NL])
       @ ESC # ''[0m'')"

text \<open>The block of one fetched partition, run when the pointer is not nil.\<close>

definition listLackReplica :: "Package \<Rightarrow> MasterClient \<Rightarrow> MetaPartitionInfo option \<Rightarrow> run \<Rightarrow> run" where
  "listLackReplica pkg client ptr st =
     (case ptr of
        None \<Rightarrow> st
      | Some partition' \<Rightarrow>
          (let st = st\<lparr>out := out st @ [InfoRow (Some partition')]\<rparr>;
               partition' = partition'\<lparr>Hosts := sort (Hosts partition')\<rparr>;
               st = foldl (listReplica client partition') st (Replicas partition')
           in st\<lparr>out := out st @ [replicaSeparator pkg]\<rparr>))"

text \<open>The partitions that lack replicas: again the first failed fetch ends the command.\<close>

fun listLackReplicaMetaPartitions :: "Package \<Rightarrow> MasterClient \<Rightarrow> 64 word list \<Rightarrow> run \<Rightarrow> flow" where
  "listLackReplicaMetaPartitions pkg client [] st = Continue st"
| "listLackReplicaMetaPartitions pkg client (pid # pids) st =
     (let st = st\<lparr>rpcs := rpcs st @ [GetMetaPartitionCall pid]\<rparr>
      in case GetMetaPartition client pid of
           Inl e \<Rightarrow> Return (st\<lparr>out := out st @ [Text (''Partition not found, err:['' @ e @ '']'')]\<rparr>)
         | Inr ptr \<Rightarrow>
             listLackReplicaMetaPartitions pkg client pids (listLackReplica pkg client ptr st))"

text \<open>
  The closure when \<^verbatim>\<open>optCheckAll\<close> is false. A failed \<^verbatim>\<open>DiagnoseMetaPartition\<close> prints
  the error and goes on with a nil \<^verbatim>\<open>diagnosis\<close>, which the first sort dereferences.
\<close>

definition corruptHeader :: "Package \<Rightarrow> item list" where
  "corruptHeader pkg =
     [Text [NL], Text (''[Corrupt meta partitions](no leader):'' @ [NL]),
      Text (partitionInfoTableHeader pkg @ [NL])]"

definition lackReplicaHeader :: "Package \<Rightarrow> item list" where
  "lackReplicaHeader pkg =
     [Text [NL], Text (''[Partition lack replicas]:'' @ [NL]),
      Text (partitionInfoTableHeader pkg @ [NL])]"

definition inactiveHeader :: "item list" where
  "inactiveHeader = [Text (''[Inactive Meta nodes]:'' @ [NL]), NodeDetailTableHeader]"

definition checkCorrupt :: "Package \<Rightarrow> MasterClient \<Rightarrow> flow" where
  "checkCorrupt pkg client =
     (let st = \<lparr>out = [], rpcs = [DiagnoseMetaPartitionCall]\<rparr>
      in case DiagnoseMetaPartition client of
           Inl e \<Rightarrow> Panic (st\<lparr>out := Text (e @ [NL]) # inactiveHeader\<rparr>)
         | Inr diagnosis \<Rightarrow>
             andThen (listInactiveMetaNodes client (sort (InactiveMetaNodes diagnosis))
                        (st\<lparr>out := inactiveHeader\<rparr>))
               (\<lambda>st. andThen (listCorruptMetaPartitions client (sort (CorruptMetaPartitionIDs diagnosis))
                          (st\<lparr>out := out st @ corruptHeader pkg\<rparr>))
                 (\<lambda>st. andThen (listLackReplicaMetaPartitions pkg client
                            (sort (LackReplicaMetaPartitionIDs diagnosis))
                            (st\<lparr>out := out st @ lackReplicaHeader pkg\<rparr>))
                   Return)))"

subsection \<open>A small cluster\<close>

text \<open>
  Three nodes and two partitions, used to run the definitions: partition 10 is placed on
  the three nodes, partition 30 has lost a replica and its leader, and no other partition
  exists. A node of \<open>down\<close> does not answer.
\<close>

definition replicasAt :: "string list \<Rightarrow> MetaReplicaInfo list" where
  "replicasAt addrs = map (\<lambda>a. \<lparr>MetaReplicaInfo.Addr = a\<rparr>) addrs"

definition peersAt :: "string list \<Rightarrow> MNMetaPartitionInfo" where
  "peersAt addrs = \<lparr>Peers = map (\<lambda>a. \<lparr>Peer.Addr = a\<rparr>) addrs\<rparr>"

definition partition10 :: MetaPartitionInfo where
  "partition10 =
     \<lparr>MetaPartitionInfo.PartitionID = 10, Replicas = replicasAt [''h1:9'', ''h2:9'', ''h3:9''],
      ReplicaNum = 3, Status = 2, Hosts = [''h2:9'', ''h1:9'', ''h3:9''], MissNodes = []\<rparr>"

definition partition30 :: MetaPartitionInfo where
  "partition30 =
     \<lparr>MetaPartitionInfo.PartitionID = 30, Replicas = replicasAt [''h1:9'', ''h2:9''],
      ReplicaNum = 3, Status = - 1, Hosts = [''h1:9'', ''h2:9''], MissNodes = [(''h3:9'', 5)]\<rparr>"

definition node1 :: MetaNodeInfo where
  "node1 = \<lparr>ID = 7, MetaNodeInfo.Addr = ''h1:9''\<rparr>"

definition node3 :: MetaNodeInfo where
  "node3 = \<lparr>ID = 2, MetaNodeInfo.Addr = ''h3:9''\<rparr>"

definition volView0 :: VolView where
  "volView0 =
     \<lparr>MetaPartitions = [\<lparr>MetaPartitionView.PartitionID = 30\<rparr>,
        \<lparr>MetaPartitionView.PartitionID = 10\<rparr>, \<lparr>MetaPartitionView.PartitionID = 20\<rparr>]\<rparr>"

definition cluster :: "string list \<Rightarrow> MetaPartitionDiagnosis \<Rightarrow> MasterClient" where
  "cluster down d =
     \<lparr>GetMetaPartition = (\<lambda>pid.
         if pid = 10 then Inr (Some partition10)
         else if pid = 30 then Inr (Some partition30)
         else Inl ''meta partition not exists''),
      MetaNodeGetPartition = (\<lambda>addr pid.
         if addr \<in> set down then Inl ''connection refused''
         else Inr (peersAt [''h3:9'', ''h1:9'', ''h2:9''])),
      DiagnoseMetaPartition = Inr d,
      GetMetaNode = (\<lambda>addr.
         if addr = ''h1:9'' then Some node1
         else if addr = ''h3:9'' then Some node3
         else None),
      ListVols = (\<lambda>keywords. Inr [\<lparr>Name = ''vol1'', Owner = ''root''\<rparr>]),
      GetVolume = (\<lambda>name authKey. Inr volView0)\<rparr>"

definition diagnosis0 :: MetaPartitionDiagnosis where
  "diagnosis0 =
     \<lparr>InactiveMetaNodes = [''h3:9'', ''h1:9''], CorruptMetaPartitionIDs = [30, 10, 20],
      LackReplicaMetaPartitionIDs = [30]\<rparr>"

definition diagnosis1 :: MetaPartitionDiagnosis where
  "diagnosis1 =
     \<lparr>InactiveMetaNodes = [''h3:9'', ''h1:9''], CorruptMetaPartitionIDs = [30, 10],
      LackReplicaMetaPartitionIDs = [30, 20, 10]\<rparr>"

definition diagnosis2 :: MetaPartitionDiagnosis where
  "diagnosis2 =
     \<lparr>InactiveMetaNodes = [''h3:9'', ''h1:9''], CorruptMetaPartitionIDs = [],
      LackReplicaMetaPartitionIDs = []\<rparr>"

definition diagnosis3 :: MetaPartitionDiagnosis where
  "diagnosis3 =
     \<lparr>InactiveMetaNodes = [''h3:9'', ''h1:9''], CorruptMetaPartitionIDs = [30, 10],
      LackReplicaMetaPartitionIDs = [30, 10]\<rparr>"

definition diagnosis4 :: MetaPartitionDiagnosis where
  "diagnosis4 =
     \<lparr>InactiveMetaNodes = [''h1:9'', ''h3:9''], CorruptMetaPartitionIDs = [10, 30],
      LackReplicaMetaPartitionIDs = [10, 30]\<rparr>"

definition found0 :: "64 word \<Rightarrow> MetaPartitionInfo option" where
  "found0 pid = (if pid = 10 then Some partition10 else Some partition30)"

definition pkg0 :: Package where
  "pkg0 = \<lparr>partitionInfoTableHeader = ''ID  VOLUME'', calcAuthKey = (\<lambda>owner. owner)\<rparr>"

section \<open>Properties\<close>

subsection \<open>The loop over the replicas\<close>

lemma checkReplica_calls:
  "calls (checkReplica client p st r) =
     calls st @ [MetaNodeGetPartitionCall (hostOf (MetaReplicaInfo.Addr r)) (MetaPartitionInfo.PartitionID p)]"
  by (simp add: checkReplica_def Let_def split: sum.splits)

lemma checkReplica_unhealthy:
  "\<not> isHealthy st \<Longrightarrow> \<not> isHealthy (checkReplica client p st r)"
  by (simp add: checkReplica_def Let_def split: sum.splits)

lemma checkReplicas_unhealthy:
  "\<not> isHealthy st \<Longrightarrow> \<not> isHealthy (foldl (checkReplica client p) st rs)"
  by (induction rs arbitrary: st) (simp_all add: checkReplica_unhealthy)

lemma checkReplica_agree:
  assumes "MetaNodeGetPartition client (hostOf (MetaReplicaInfo.Addr r)) (MetaPartitionInfo.PartitionID p) = Inr mn"
    and "set (map Peer.Addr (Peers mn)) = set (Hosts p)"
    and "int (length (Peers mn)) = ReplicaNum p"
  shows "isHealthy (checkReplica client p st r) = isHealthy st"
  using assms by (simp add: checkReplica_def Let_def isEqualStrings_def convertPeersToArray_def)

lemma checkReplicas_agree:
  assumes "\<forall>r \<in> set rs. \<exists>mn.
      MetaNodeGetPartition client (hostOf (MetaReplicaInfo.Addr r)) (MetaPartitionInfo.PartitionID p) = Inr mn
      \<and> set (map Peer.Addr (Peers mn)) = set (Hosts p) \<and> int (length (Peers mn)) = ReplicaNum p"
  shows "isHealthy (foldl (checkReplica client p) st rs) = isHealthy st"
  using assms
proof (induction rs arbitrary: st)
  case Nil
  then show ?case by simp
next
  case (Cons r rs)
  then obtain mn where
    "MetaNodeGetPartition client (hostOf (MetaReplicaInfo.Addr r)) (MetaPartitionInfo.PartitionID p) = Inr mn"
    "set (map Peer.Addr (Peers mn)) = set (Hosts p)" "int (length (Peers mn)) = ReplicaNum p"
    by auto
  then have "isHealthy (checkReplica client p st r) = isHealthy st"
    by (rule checkReplica_agree)
  with Cons show ?case by simp
qed

subsection \<open>The verdict of checkMetaPartition\<close>

text \<open>
  C1. When the partition is fetched, no host is missing, the status is not the no-leader
  value \<open>-1\<close>, the number of hosts is the replica number, and every replica answers with
  peers whose addresses are, as a set, the hosts and whose number is the replica number,
  then \<^verbatim>\<open>checkMetaPartition\<close> returns \<^verbatim>\<open>isHealthy = true\<close>.
\<close>

theorem checkMetaPartition_healthy:
  assumes "GetMetaPartition client pid = Inr (Some p)"
    and "MissNodes p = []"
    and "Status p \<noteq> - 1"
    and "int (length (Hosts p)) = ReplicaNum p"
    and "\<forall>r \<in> set (Replicas p). \<exists>mn.
      MetaNodeGetPartition client (hostOf (MetaReplicaInfo.Addr r)) (MetaPartitionInfo.PartitionID p) = Inr mn
      \<and> set (map Peer.Addr (Peers mn)) = set (Hosts p) \<and> int (length (Peers mn)) = ReplicaNum p"
  shows "isHealthy (checkMetaPartition pid client)"
proof -
  let ?p = "p\<lparr>Hosts := sort (Hosts p)\<rparr>"
  have "\<forall>r \<in> set (Replicas ?p). \<exists>mn.
      MetaNodeGetPartition client (hostOf (MetaReplicaInfo.Addr r)) (MetaPartitionInfo.PartitionID ?p) = Inr mn
      \<and> set (map Peer.Addr (Peers mn)) = set (Hosts ?p) \<and> int (length (Peers mn)) = ReplicaNum ?p"
    using assms(5) by simp
  then have "\<And>st. isHealthy (foldl (checkReplica client ?p) st (Replicas ?p)) = isHealthy st"
    by (rule checkReplicas_agree)
  then show ?thesis
    using assms(1-4) by (simp add: checkMetaPartition_def Let_def)
qed

theorem checkMetaPartition_healthy_witness:
  "isHealthy (checkMetaPartition 10 (cluster [] diagnosis0))"
  using checkMetaPartition_healthy [of "cluster [] diagnosis0" 10 partition10]
  by (simp add: cluster_def partition10_def replicasAt_def peersAt_def hostOf_def insert_commute)

lemma checkMetaPartition_found:
  assumes "GetMetaPartition client pid = Inr (Some p)"
  shows "checkMetaPartition pid client =
    (let q = p\<lparr>Hosts := sort (Hosts p)\<rparr>;
         st = \<lparr>outPut = [], isHealthy = True, err = None, sb = [InfoRow (Some p)],
                calls = [GetMetaPartitionCall pid]\<rparr>;
         st = (if 0 < length (MissNodes p) \<or> Status p = - 1 \<or> int (length (Hosts p)) \<noteq> ReplicaNum p
               then st\<lparr>sb := sb st @ [unhealthyMsg], isHealthy := False\<rparr> else st);
         st = foldl (checkReplica client q) st (Replicas p)
     in st\<lparr>outPut := sb st\<rparr>)"
  using assms by (simp add: checkMetaPartition_def Let_def)

text \<open>
  C2. When the partition is fetched and a host is missing, or the status is the no-leader
  value \<open>-1\<close>, or the number of hosts differs from the replica number, then
  \<^verbatim>\<open>checkMetaPartition\<close> returns \<^verbatim>\<open>isHealthy = false\<close>, whatever the replicas answer.
\<close>

theorem checkMetaPartition_unhealthy_by_master:
  assumes "GetMetaPartition client pid = Inr (Some p)"
    and "MissNodes p \<noteq> [] \<or> Status p = - 1 \<or> int (length (Hosts p)) \<noteq> ReplicaNum p"
  shows "\<not> isHealthy (checkMetaPartition pid client)"
  using assms by (auto simp add: checkMetaPartition_found Let_def checkReplicas_unhealthy)

theorem checkMetaPartition_unhealthy_by_master_witness:
  "\<not> isHealthy (checkMetaPartition 30 (cluster [] diagnosis0))"
  using checkMetaPartition_unhealthy_by_master [of "cluster [] diagnosis0" 30 partition30]
  by (simp add: cluster_def partition30_def)

lemma checkReplica_disagree:
  assumes "MetaNodeGetPartition client (hostOf (MetaReplicaInfo.Addr r)) (MetaPartitionInfo.PartitionID p) = Inr mn"
    and "set (map Peer.Addr (Peers mn)) \<noteq> set (Hosts p) \<or> int (length (Peers mn)) \<noteq> ReplicaNum p"
  shows "\<not> isHealthy (checkReplica client p st r)"
  using assms by (auto simp add: checkReplica_def Let_def isEqualStrings_def convertPeersToArray_def)

lemma checkReplicas_member_unhealthy:
  assumes "r \<in> set rs" and "\<And>st. \<not> isHealthy (checkReplica client p st r)"
  shows "\<not> isHealthy (foldl (checkReplica client p) st rs)"
proof -
  from assms(1) obtain rs1 rs2 where "rs = rs1 @ r # rs2"
    by (auto simp add: in_set_conv_decomp)
  then show ?thesis
    by (simp add: assms(2) checkReplicas_unhealthy)
qed

subsection \<open>The comparison of a replica's peers with the hosts\<close>

text \<open>
  C3. The comparison does not depend on the order: peers that are a permutation of the
  hosts compare equal once both are sorted, and a replica that answers with such peers,
  the hosts being as many as the replica number, leaves \<^verbatim>\<open>isHealthy\<close> as it was.
  Conversely, a replica that answers with peers whose set differs from the hosts', or
  whose number differs from the replica number, makes \<^verbatim>\<open>checkMetaPartition\<close> return
  \<^verbatim>\<open>isHealthy = false\<close>.
\<close>

theorem peer_comparison:
  "(mset peers = mset hosts \<longrightarrow> isEqualStrings (sort hosts) (sort peers))
   \<and> (MetaNodeGetPartition client (hostOf (MetaReplicaInfo.Addr r)) (MetaPartitionInfo.PartitionID q) = Inr mn
        \<and> mset (map Peer.Addr (Peers mn)) = mset (Hosts q) \<and> int (length (Hosts q)) = ReplicaNum q
      \<longrightarrow> isHealthy (checkReplica client q st r) = isHealthy st)
   \<and> (GetMetaPartition client pid = Inr (Some p) \<and> r \<in> set (Replicas p)
        \<and> MetaNodeGetPartition client (hostOf (MetaReplicaInfo.Addr r)) (MetaPartitionInfo.PartitionID p) = Inr mn
        \<and> (set (sort (map Peer.Addr (Peers mn))) \<noteq> set (sort (Hosts p))
             \<or> int (length (Peers mn)) \<noteq> ReplicaNum p)
      \<longrightarrow> \<not> isHealthy (checkMetaPartition pid client))"
proof (intro conjI impI)
  assume "mset peers = mset hosts"
  then have "set peers = set hosts" by (rule mset_eq_setD)
  then show "isEqualStrings (sort hosts) (sort peers)"
    by (simp add: isEqualStrings_def)
next
  assume a: "MetaNodeGetPartition client (hostOf (MetaReplicaInfo.Addr r)) (MetaPartitionInfo.PartitionID q) = Inr mn
        \<and> mset (map Peer.Addr (Peers mn)) = mset (Hosts q) \<and> int (length (Hosts q)) = ReplicaNum q"
  then have ok: "MetaNodeGetPartition client (hostOf (MetaReplicaInfo.Addr r)) (MetaPartitionInfo.PartitionID q) = Inr mn"
    and m: "mset (map Peer.Addr (Peers mn)) = mset (Hosts q)"
    and n: "int (length (Hosts q)) = ReplicaNum q"
    by simp_all
  from m have s: "set (map Peer.Addr (Peers mn)) = set (Hosts q)"
    by (rule mset_eq_setD)
  from m have "length (map Peer.Addr (Peers mn)) = length (Hosts q)"
    by (rule mset_eq_length)
  with n have l: "int (length (Peers mn)) = ReplicaNum q"
    by simp
  from ok s l show "isHealthy (checkReplica client q st r) = isHealthy st"
    by (rule checkReplica_agree)
next
  assume a: "GetMetaPartition client pid = Inr (Some p) \<and> r \<in> set (Replicas p)
        \<and> MetaNodeGetPartition client (hostOf (MetaReplicaInfo.Addr r)) (MetaPartitionInfo.PartitionID p) = Inr mn
        \<and> (set (sort (map Peer.Addr (Peers mn))) \<noteq> set (sort (Hosts p))
             \<or> int (length (Peers mn)) \<noteq> ReplicaNum p)"
  let ?q = "p\<lparr>Hosts := sort (Hosts p)\<rparr>"
  have "\<And>st. \<not> isHealthy (checkReplica client ?q st r)"
    using a by (intro checkReplica_disagree [where mn = mn]) auto
  with a have "\<And>st. \<not> isHealthy (foldl (checkReplica client ?q) st (Replicas p))"
    by (intro checkReplicas_member_unhealthy [where r = r]) auto
  with a show "\<not> isHealthy (checkMetaPartition pid client)"
    by (simp add: checkMetaPartition_found Let_def)
qed


theorem peer_comparison_witness:
  "isEqualStrings (sort [''b'', ''a'', ''c'']) (sort [''c'', ''b'', ''a''])
   \<and> isHealthy (checkReplica (cluster [] diagnosis0) partition10
        \<lparr>outPut = [], isHealthy = True, err = None, sb = [], calls = []\<rparr>
        \<lparr>MetaReplicaInfo.Addr = ''h1:9''\<rparr>)
      = isHealthy \<lparr>outPut = [], isHealthy = True, err = None, sb = [], calls = []\<rparr>
   \<and> \<not> isHealthy (checkMetaPartition 30 (cluster [] diagnosis0))"
proof -
  let ?cl = "cluster [] diagnosis0"
  let ?r = "\<lparr>MetaReplicaInfo.Addr = ''h1:9''\<rparr>"
  let ?mn = "peersAt [''h3:9'', ''h1:9'', ''h2:9'']"
  have 1: "mset [''c'', ''b'', ''a''] = mset [''b'', ''a'', ''c'']"
    by (simp add: add_mset_commute)
  have 2: "MetaNodeGetPartition ?cl (hostOf (MetaReplicaInfo.Addr ?r)) (MetaPartitionInfo.PartitionID partition10) = Inr ?mn
      \<and> mset (map Peer.Addr (Peers ?mn)) = mset (Hosts partition10)
      \<and> int (length (Hosts partition10)) = ReplicaNum partition10"
    by (simp add: cluster_def partition10_def peersAt_def add_mset_commute)
  have "''h3:9'' \<in> set (sort (map Peer.Addr (Peers ?mn)))"
    and "''h3:9'' \<notin> set (sort (Hosts partition30))"
    by (simp_all add: peersAt_def partition30_def)
  then have "set (sort (map Peer.Addr (Peers ?mn))) \<noteq> set (sort (Hosts partition30))"
    by blast
  then have 3: "GetMetaPartition ?cl 30 = Inr (Some partition30) \<and> ?r \<in> set (Replicas partition30)
      \<and> MetaNodeGetPartition ?cl (hostOf (MetaReplicaInfo.Addr ?r)) (MetaPartitionInfo.PartitionID partition30) = Inr ?mn
      \<and> (set (sort (map Peer.Addr (Peers ?mn))) \<noteq> set (sort (Hosts partition30))
           \<or> int (length (Peers ?mn)) \<noteq> ReplicaNum partition30)"
    by (simp add: cluster_def partition30_def replicasAt_def)
  show ?thesis
    using 1 2 3 peer_comparison [of "[''c'', ''b'', ''a'']" "[''b'', ''a'', ''c'']" ?cl ?r partition10 ?mn
      "\<lparr>outPut = [], isHealthy = True, err = None, sb = [], calls = []\<rparr>" 30 partition30]
    by blast
qed

subsection \<open>A replica that does not answer\<close>

lemma checkReplicas_calls:
  "calls (foldl (checkReplica client p) st rs) =
     calls st @ map (\<lambda>r. MetaNodeGetPartitionCall (hostOf (MetaReplicaInfo.Addr r)) (MetaPartitionInfo.PartitionID p)) rs"
  by (induction rs arbitrary: st) (simp_all add: checkReplica_calls)

lemma checkMetaPartition_calls:
  assumes "GetMetaPartition client pid = Inr (Some p)"
  shows "calls (checkMetaPartition pid client) =
     GetMetaPartitionCall pid
       # map (\<lambda>r. MetaNodeGetPartitionCall (hostOf (MetaReplicaInfo.Addr r)) (MetaPartitionInfo.PartitionID p)) (Replicas p)"
  using assms by (simp add: checkMetaPartition_found Let_def checkReplicas_calls)

lemma checkReplica_sb:
  "\<exists>row. sb (checkReplica client p st r) = sb st @ [row]"
  by (simp add: checkReplica_def Let_def split: sum.splits)

lemma checkReplicas_sb:
  "\<exists>rows. sb (foldl (checkReplica client p) st rs) = sb st @ rows \<and> length rows = length rs"
proof (induction rs arbitrary: st)
  case Nil
  then show ?case by simp
next
  case (Cons r rs)
  obtain row where 1: "sb (checkReplica client p st r) = sb st @ [row]"
    using checkReplica_sb by blast
  obtain rows where 2: "sb (foldl (checkReplica client p) (checkReplica client p st r) rs)
      = sb (checkReplica client p st r) @ rows" "length rows = length rs"
    using Cons.IH by blast
  have "sb (foldl (checkReplica client p) st (r # rs)) = sb st @ (row # rows)"
    using 1 2 by simp
  moreover have "length (row # rows) = length (r # rs)"
    using 2 by simp
  ultimately show ?case by blast
qed

lemma checkReplica_failed:
  assumes "MetaNodeGetPartition client (hostOf (MetaReplicaInfo.Addr r)) (MetaPartitionInfo.PartitionID p) = Inl e"
  shows "sb (checkReplica client p st r) =
      sb st @ [ColorRow [] [] [] (MetaReplicaInfo.Addr r) (''nil/'' @ string_of_int (ReplicaNum p))
        (''get partition info failed, err:'' @ e)]"
    and "\<not> isHealthy (checkReplica client p st r)"
  using assms by (simp_all add: checkReplica_def Let_def)

text \<open>
  C4, as the code has it. When the partition is fetched and the query of one of its
  replicas fails, \<^verbatim>\<open>checkMetaPartition\<close> returns \<^verbatim>\<open>isHealthy = false\<close>, the report
  holds for that replica a row with the replica's address, \<^verbatim>\<open>nil\<close> over the replica
  number and the text \<^verbatim>\<open>get partition info failed, err:\<close> followed by the error, that
  row is followed by one row for each later replica, and every replica of the partition
  is queried.
\<close>

theorem checkMetaPartition_replica_failed:
  assumes "GetMetaPartition client pid = Inr (Some p)"
    and "Replicas p = rs1 @ r # rs2"
    and "MetaNodeGetPartition client (hostOf (MetaReplicaInfo.Addr r)) (MetaPartitionInfo.PartitionID p) = Inl e"
  shows "\<not> isHealthy (checkMetaPartition pid client)
    \<and> (\<exists>pre post. outPut (checkMetaPartition pid client) =
          pre @ ColorRow [] [] [] (MetaReplicaInfo.Addr r) (''nil/'' @ string_of_int (ReplicaNum p))
                  (''get partition info failed, err:'' @ e) # post
          \<and> length post = length rs2)
    \<and> calls (checkMetaPartition pid client) =
        GetMetaPartitionCall pid
          # map (\<lambda>r. MetaNodeGetPartitionCall (hostOf (MetaReplicaInfo.Addr r)) (MetaPartitionInfo.PartitionID p))
              (rs1 @ r # rs2)"
proof (intro conjI)
  let ?q = "p\<lparr>Hosts := sort (Hosts p)\<rparr>"
  let ?row = "ColorRow [] [] [] (MetaReplicaInfo.Addr r) (''nil/'' @ string_of_int (ReplicaNum p))
                  (''get partition info failed, err:'' @ e)"
  have failed: "MetaNodeGetPartition client (hostOf (MetaReplicaInfo.Addr r)) (MetaPartitionInfo.PartitionID ?q) = Inl e"
    using assms(3) by simp
  have step: "\<And>st. foldl (checkReplica client ?q) st (Replicas p) =
      foldl (checkReplica client ?q) (checkReplica client ?q (foldl (checkReplica client ?q) st rs1) r) rs2"
    by (simp add: assms(2))
  have "\<And>st. \<not> isHealthy (foldl (checkReplica client ?q) st (Replicas p))"
    unfolding step using checkReplica_failed(2) [OF failed] by (rule checkReplicas_unhealthy)
  then show "\<not> isHealthy (checkMetaPartition pid client)"
    using assms(1) by (simp add: checkMetaPartition_found Let_def)
  have "\<And>st. \<exists>pre post. sb (foldl (checkReplica client ?q) st (Replicas p)) = pre @ ?row # post
      \<and> length post = length rs2"
  proof -
    fix st
    let ?st1 = "foldl (checkReplica client ?q) st rs1"
    obtain rows where "sb (foldl (checkReplica client ?q) (checkReplica client ?q ?st1 r) rs2)
        = sb (checkReplica client ?q ?st1 r) @ rows" "length rows = length rs2"
      using checkReplicas_sb by blast
    moreover have "sb (checkReplica client ?q ?st1 r) = sb ?st1 @ [?row]"
      using checkReplica_failed(1) [OF failed] by simp
    ultimately have "sb (foldl (checkReplica client ?q) st (Replicas p)) = sb ?st1 @ ?row # rows
        \<and> length rows = length rs2"
      unfolding step by simp
    then show "\<exists>pre post. sb (foldl (checkReplica client ?q) st (Replicas p)) = pre @ ?row # post
      \<and> length post = length rs2"
      by blast
  qed
  then show "\<exists>pre post. outPut (checkMetaPartition pid client) = pre @ ?row # post
      \<and> length post = length rs2"
    using assms(1) by (simp add: checkMetaPartition_found Let_def)
  show "calls (checkMetaPartition pid client) =
        GetMetaPartitionCall pid
          # map (\<lambda>r. MetaNodeGetPartitionCall (hostOf (MetaReplicaInfo.Addr r)) (MetaPartitionInfo.PartitionID p))
              (rs1 @ r # rs2)"
    using checkMetaPartition_calls [OF assms(1)] assms(2) by simp
qed

lemma string_of_int_3: "string_of_int 3 = ''3''"
  by (simp add: string_of_int_def digit_def)

theorem checkMetaPartition_replica_failed_witness:
  "\<not> isHealthy (checkMetaPartition 10 (cluster [''h3''] diagnosis0))
    \<and> (\<exists>pre post. outPut (checkMetaPartition 10 (cluster [''h3''] diagnosis0)) =
          pre @ ColorRow [] [] [] ''h3:9'' ''nil/3'' ''get partition info failed, err:connection refused'' # post
          \<and> length post = 0)
    \<and> calls (checkMetaPartition 10 (cluster [''h3''] diagnosis0)) =
        [GetMetaPartitionCall 10, MetaNodeGetPartitionCall ''h1'' 10, MetaNodeGetPartitionCall ''h2'' 10,
         MetaNodeGetPartitionCall ''h3'' 10]"
  using checkMetaPartition_replica_failed [of "cluster [''h3''] diagnosis0" 10 partition10
      "replicasAt [''h1:9'', ''h2:9'']" "\<lparr>MetaReplicaInfo.Addr = ''h3:9''\<rparr>" "[]" "''connection refused''"]
  by (simp add: cluster_def partition10_def replicasAt_def hostOf_def string_of_int_3)

text \<open>
  C4, as the claim has it, fails: with node \<open>h3\<close> down, the row of \<open>h3:9\<close> in the report
  of partition 10 shows \<^verbatim>\<open>nil/3\<close>, and the report has no row showing \<^verbatim>\<open>0/3\<close>.
\<close>

theorem replica_failed_row_counterexample:
  "outPut (checkMetaPartition 10 (cluster [''h3''] diagnosis0)) =
     [InfoRow (Some partition10),
      ColorRow [] [] [] ''h1:9(peers)'' ''3/3'' ''h1:9; h2:9; h3:9'',
      ColorRow [] [] [] ''h2:9(peers)'' ''3/3'' ''h1:9; h2:9; h3:9'',
      ColorRow [] [] [] ''h3:9'' ''nil/3'' ''get partition info failed, err:connection refused'']
   \<and> ColorRow [] [] [] ''h3:9'' ''0/3'' ''get partition info failed, err:connection refused''
       \<notin> set (outPut (checkMetaPartition 10 (cluster [''h3''] diagnosis0)))"
  by (simp add: checkMetaPartition_def checkReplica_def cluster_def partition10_def replicasAt_def
      peersAt_def hostOf_def string_of_int_def digit_def convertPeersToArray_def Let_def)

subsection \<open>A partition that cannot be fetched\<close>

text \<open>
  C5. When the fetch of the partition fails, the text \<^verbatim>\<open>Partition is not found\<close> is
  written to the builder, and the function returns before \<^verbatim>\<open>outPut = sb.String()\<close>:
  the report returned is empty, \<^verbatim>\<open>isHealthy\<close> is \<^verbatim>\<open>true\<close>, the error is returned,
  and no replica is queried.
\<close>

theorem checkMetaPartition_not_found:
  assumes "GetMetaPartition client pid = Inl e"
  shows "checkMetaPartition pid client =
    \<lparr>outPut = [], isHealthy = True, err = Some e,
     sb = [Text (''Partition is not found, err:['' @ e @ '']'')], calls = [GetMetaPartitionCall pid]\<rparr>"
  using assms by (simp add: checkMetaPartition_def)

theorem checkMetaPartition_not_found_witness:
  "checkMetaPartition 20 (cluster [] diagnosis0) =
    \<lparr>outPut = [], isHealthy = True, err = Some ''meta partition not exists'',
     sb = [Text ''Partition is not found, err:[meta partition not exists]''],
     calls = [GetMetaPartitionCall 20]\<rparr>"
  using checkMetaPartition_not_found [of "cluster [] diagnosis0" 20 "''meta partition not exists''"]
  by (simp add: cluster_def)

subsection \<open>The sweep over all partitions\<close>

lemma interleavings_map_filter:
  assumes "\<And>x. \<not> P x \<Longrightarrow> f x = []"
  shows "interleavings (map f (filter P xs)) = interleavings (map f xs)"
  by (induction xs) (simp_all add: assms)



lemma checkTask_not_found:
  assumes "GetMetaPartition client (MetaPartitionView.PartitionID mp) = Inl e"
  shows "checkTask pkg client mp = []"
  using assms by (simp add: checkTask_def checkMetaPartition_def)







text \<open>
  C9. When the fetch of the partition fails, \<^verbatim>\<open>checkMetaPartition\<close> returns
  \<^verbatim>\<open>isHealthy = true\<close>, and the task of that partition in the sweep writes nothing: the
  outputs of a volume are those of the volume without the partitions that cannot be
  fetched.
\<close>

theorem fetch_failure_is_healthy:
  "(GetMetaPartition client pid = Inl e \<longrightarrow> isHealthy (checkMetaPartition pid client))
   \<and> (GetMetaPartition client (MetaPartitionView.PartitionID mp) = Inl e \<longrightarrow> checkTask pkg client mp = [])
   \<and> checkVolume pkg client volView =
       checkVolume pkg client
         (volView\<lparr>MetaPartitions :=
            filter (\<lambda>mp. \<not> isl (GetMetaPartition client (MetaPartitionView.PartitionID mp)))
              (MetaPartitions volView)\<rparr>)"
proof (intro conjI impI)
  show "isHealthy (checkMetaPartition pid client)" if "GetMetaPartition client pid = Inl e"
    using that by (simp add: checkMetaPartition_def)
  show "checkTask pkg client mp = []"
    if "GetMetaPartition client (MetaPartitionView.PartitionID mp) = Inl e"
    using that by (rule checkTask_not_found)
  let ?P = "\<lambda>mp. \<not> isl (GetMetaPartition client (MetaPartitionView.PartitionID mp))"
  have "\<And>mp. \<not> ?P mp \<Longrightarrow> checkTask pkg client mp = []"
    by (auto simp add: isl_def checkTask_not_found)
  then have "interleavings (map (checkTask pkg client)
        (filter ?P (sort_key MetaPartitionView.PartitionID (MetaPartitions volView))))
      = interleavings (map (checkTask pkg client)
        (sort_key MetaPartitionView.PartitionID (MetaPartitions volView)))"
    by (rule interleavings_map_filter)
  then show "checkVolume pkg client volView =
       checkVolume pkg client (volView\<lparr>MetaPartitions := filter ?P (MetaPartitions volView)\<rparr>)"
    by (simp add: checkVolume_def filter_sort)
qed


theorem fetch_failure_is_healthy_witness:
  "isHealthy (checkMetaPartition 20 (cluster [] diagnosis0))
   \<and> checkTask pkg0 (cluster [] diagnosis0) \<lparr>MetaPartitionView.PartitionID = 20\<rparr> = []
   \<and> checkVolume pkg0 (cluster [] diagnosis0) volView0 =
       checkVolume pkg0 (cluster [] diagnosis0)
         (volView0\<lparr>MetaPartitions := [\<lparr>MetaPartitionView.PartitionID = 30\<rparr>,
            \<lparr>MetaPartitionView.PartitionID = 10\<rparr>]\<rparr>)"
proof -
  let ?cl = "cluster [] diagnosis0"
  have f: "filter (\<lambda>mp. \<not> isl (GetMetaPartition ?cl (MetaPartitionView.PartitionID mp)))
      (MetaPartitions volView0) =
      [\<lparr>MetaPartitionView.PartitionID = 30\<rparr>, \<lparr>MetaPartitionView.PartitionID = 10\<rparr>]"
    by (simp add: volView0_def cluster_def)
  have g: "GetMetaPartition ?cl 20 = Inl ''meta partition not exists''"
    by (simp add: cluster_def)
  show ?thesis
    using fetch_failure_is_healthy [of ?cl 20 "''meta partition not exists''"
        "\<lparr>MetaPartitionView.PartitionID = 20\<rparr>" pkg0 volView0] g
    by (simp add: f)
qed

subsection \<open>The check command without \<^verbatim>\<open>--all\<close>\<close>

lemma listInactiveMetaNodes_fetched:
  assumes "those (map (GetMetaNode client) addrs) = Some nodes"
  shows "listInactiveMetaNodes client addrs st =
    Continue (st\<lparr>out := out st @ map (\<lambda>node. NodeDetail (Some node)) (sort_key ID nodes),
                  rpcs := rpcs st @ map GetMetaNodeCall addrs\<rparr>)"
  using assms by (simp add: listInactiveMetaNodes_def Let_def)

lemma listCorruptMetaPartitions_fetched:
  assumes "\<forall>pid \<in> set pids. GetMetaPartition client pid = Inr (found pid)"
  shows "listCorruptMetaPartitions client pids st =
    Continue (st\<lparr>out := out st @ map (\<lambda>pid. InfoRow (found pid)) pids,
                  rpcs := rpcs st @ map GetMetaPartitionCall pids\<rparr>)"
  using assms by (induction pids arbitrary: st) (simp_all add: Let_def)

lemma listCorruptMetaPartitions_failed:
  assumes "\<forall>pid \<in> set ids1. GetMetaPartition client pid = Inr (found pid)"
    and "GetMetaPartition client pid = Inl e"
  shows "listCorruptMetaPartitions client (ids1 @ pid # ids2) st =
    Return (st\<lparr>out := out st @ map (\<lambda>pid. InfoRow (found pid)) ids1
                      @ [Text (''Partition not found, err:['' @ e @ '']'')],
                rpcs := rpcs st @ map GetMetaPartitionCall (ids1 @ [pid])\<rparr>)"
  using assms by (induction ids1 arbitrary: st) (simp_all add: Let_def)

lemma listLackReplicaMetaPartitions_fetched:
  assumes "\<forall>pid \<in> set pids. GetMetaPartition client pid = Inr (found pid)"
  shows "listLackReplicaMetaPartitions pkg client pids st =
    Continue (foldl (\<lambda>st pid. listLackReplica pkg client (found pid)
                (st\<lparr>rpcs := rpcs st @ [GetMetaPartitionCall pid]\<rparr>)) st pids)"
  using assms by (induction pids arbitrary: st) (simp_all add: Let_def)

lemma listLackReplicaMetaPartitions_failed:
  assumes "\<forall>pid \<in> set ids1. GetMetaPartition client pid = Inr (found pid)"
    and "GetMetaPartition client pid = Inl e"
  shows "listLackReplicaMetaPartitions pkg client (ids1 @ pid # ids2) st =
    (let pre = foldl (\<lambda>st pid. listLackReplica pkg client (found pid)
                (st\<lparr>rpcs := rpcs st @ [GetMetaPartitionCall pid]\<rparr>)) st ids1
     in Return (pre\<lparr>out := out pre @ [Text (''Partition not found, err:['' @ e @ '']'')],
                    rpcs := rpcs pre @ [GetMetaPartitionCall pid]\<rparr>))"
  using assms by (induction ids1 arbitrary: st) (simp_all add: Let_def)

lemma checkCorrupt_sections:
  assumes "DiagnoseMetaPartition client = Inr d"
    and "those (map (GetMetaNode client) (sort (InactiveMetaNodes d))) = Some nodes"
  shows "checkCorrupt pkg client =
    andThen (listCorruptMetaPartitions client (sort (CorruptMetaPartitionIDs d))
        \<lparr>out = inactiveHeader @ map (\<lambda>node. NodeDetail (Some node)) (sort_key ID nodes) @ corruptHeader pkg,
         rpcs = DiagnoseMetaPartitionCall # map GetMetaNodeCall (sort (InactiveMetaNodes d))\<rparr>)
      (\<lambda>st. andThen (listLackReplicaMetaPartitions pkg client (sort (LackReplicaMetaPartitionIDs d))
                 (st\<lparr>out := out st @ lackReplicaHeader pkg\<rparr>)) Return)"
  using assms by (simp add: checkCorrupt_def listInactiveMetaNodes_fetched Let_def)

lemma checkCorrupt_after_nodes:
  assumes "DiagnoseMetaPartition client = Inr d"
    and "listInactiveMetaNodes client (sort (InactiveMetaNodes d))
          \<lparr>out = inactiveHeader, rpcs = [DiagnoseMetaPartitionCall]\<rparr> = Continue st1"
  shows "checkCorrupt pkg client =
    andThen (listCorruptMetaPartitions client (sort (CorruptMetaPartitionIDs d))
        (st1\<lparr>out := out st1 @ corruptHeader pkg\<rparr>))
      (\<lambda>st. andThen (listLackReplicaMetaPartitions pkg client (sort (LackReplicaMetaPartitionIDs d))
                 (st\<lparr>out := out st @ lackReplicaHeader pkg\<rparr>)) Return)"
  using assms by (simp add: checkCorrupt_def Let_def)

lemma listInactiveMetaNodes_diagnosis:
  "listInactiveMetaNodes (client\<lparr>DiagnoseMetaPartition := x\<rparr>) addrs st =
     listInactiveMetaNodes client addrs st"
  by (simp add: listInactiveMetaNodes_def)

lemma listCorruptMetaPartitions_diagnosis:
  "listCorruptMetaPartitions (client\<lparr>DiagnoseMetaPartition := x\<rparr>) pids st =
     listCorruptMetaPartitions client pids st"
  by (induction pids arbitrary: st) (simp_all add: Let_def split: sum.splits)

lemma listReplica_diagnosis:
  "listReplica (client\<lparr>DiagnoseMetaPartition := x\<rparr>) = listReplica client"
  by (intro ext) (simp add: listReplica_def)

lemma listLackReplica_diagnosis:
  "listLackReplica pkg (client\<lparr>DiagnoseMetaPartition := x\<rparr>) = listLackReplica pkg client"
  by (intro ext) (simp add: listLackReplica_def listReplica_diagnosis Let_def split: option.splits)

lemma listLackReplicaMetaPartitions_diagnosis:
  "listLackReplicaMetaPartitions pkg (client\<lparr>DiagnoseMetaPartition := x\<rparr>) pids st =
     listLackReplicaMetaPartitions pkg client pids st"
  by (induction pids arbitrary: st) (simp_all add: Let_def listLackReplica_diagnosis split: sum.splits)

lemma sort_mset_cong:
  fixes xs ys :: "'a::linorder list"
  assumes "mset xs = mset ys"
  shows "sort xs = sort ys"
  by (rule properties_for_sort) (simp_all add: assms)

lemma listReplica_rpcs:
  "rpcs (listReplica client q st r) =
     rpcs st @ [MetaNodeGetPartitionCall (hostOf (MetaReplicaInfo.Addr r)) (MetaPartitionInfo.PartitionID q)]"
  by (simp add: listReplica_def Let_def split: sum.splits)

lemma listReplica_out_length:
  "length (out (listReplica client q st r)) = Suc (length (out st))"
  by (simp add: listReplica_def Let_def split: sum.splits)

lemma listReplicas_rpcs:
  "rpcs (foldl (listReplica client q) st rs) =
     rpcs st @ map (\<lambda>r. MetaNodeGetPartitionCall (hostOf (MetaReplicaInfo.Addr r)) (MetaPartitionInfo.PartitionID q)) rs"
  by (induction rs arbitrary: st) (simp_all add: listReplica_rpcs)

lemma listReplicas_out_length:
  "length (out (foldl (listReplica client q) st rs)) = length (out st) + length rs"
  by (induction rs arbitrary: st) (simp_all add: listReplica_out_length)

lemma cluster_nodes:
  "listInactiveMetaNodes (cluster down d) [''h1:9'', ''h3:9'']
      \<lparr>out = inactiveHeader, rpcs = [DiagnoseMetaPartitionCall]\<rparr> =
    Continue \<lparr>out = inactiveHeader @ [NodeDetail (Some node3), NodeDetail (Some node1)],
       rpcs = [DiagnoseMetaPartitionCall, GetMetaNodeCall ''h1:9'', GetMetaNodeCall ''h3:9'']\<rparr>"
  by (simp add: listInactiveMetaNodes_def cluster_def node1_def node3_def)

text \<open>
  C7, as the code has it. When the diagnosis and every fetch succeed, the command prints
  the rows of the inactive nodes in ascending order of the nodes' \<^verbatim>\<open>ID\<close> (the addresses
  are sorted before the nodes are fetched, and the nodes are then sorted again, stably,
  by \<^verbatim>\<open>ID\<close>), then the rows of the corrupt partitions in ascending order of their
  identifiers, then the blocks of the partitions that lack replicas in ascending order of
  their identifiers. What the command does depends on the three lists of the diagnosis
  only through their elements, not through the order the master returned them in.
\<close>

theorem diagnosis_lists_sorted:
  assumes "DiagnoseMetaPartition client = Inr d"
    and "those (map (GetMetaNode client) (sort (InactiveMetaNodes d))) = Some nodes"
    and "\<forall>pid \<in> set (CorruptMetaPartitionIDs d). GetMetaPartition client pid = Inr (found pid)"
    and "\<forall>pid \<in> set (LackReplicaMetaPartitionIDs d). GetMetaPartition client pid = Inr (found pid)"
  shows "checkCorrupt pkg client =
      Return (foldl (\<lambda>st pid. listLackReplica pkg client (found pid)
                (st\<lparr>rpcs := rpcs st @ [GetMetaPartitionCall pid]\<rparr>))
        \<lparr>out = inactiveHeader @ map (\<lambda>node. NodeDetail (Some node)) (sort_key ID nodes)
            @ corruptHeader pkg
            @ map (\<lambda>pid. InfoRow (found pid)) (sort (CorruptMetaPartitionIDs d))
            @ lackReplicaHeader pkg,
         rpcs = DiagnoseMetaPartitionCall # map GetMetaNodeCall (sort (InactiveMetaNodes d))
            @ map GetMetaPartitionCall (sort (CorruptMetaPartitionIDs d))\<rparr>
        (sort (LackReplicaMetaPartitionIDs d)))
    \<and> sorted (map ID (sort_key ID nodes))
    \<and> (mset (InactiveMetaNodes d') = mset (InactiveMetaNodes d)
        \<and> mset (CorruptMetaPartitionIDs d') = mset (CorruptMetaPartitionIDs d)
        \<and> mset (LackReplicaMetaPartitionIDs d') = mset (LackReplicaMetaPartitionIDs d)
       \<longrightarrow> checkCorrupt pkg (client\<lparr>DiagnoseMetaPartition := Inr d'\<rparr>) = checkCorrupt pkg client)"
proof (intro conjI impI)
  have c: "\<forall>pid \<in> set (sort (CorruptMetaPartitionIDs d)). GetMetaPartition client pid = Inr (found pid)"
    using assms(3) by simp
  have l: "\<forall>pid \<in> set (sort (LackReplicaMetaPartitionIDs d)). GetMetaPartition client pid = Inr (found pid)"
    using assms(4) by simp
  show "checkCorrupt pkg client =
      Return (foldl (\<lambda>st pid. listLackReplica pkg client (found pid)
                (st\<lparr>rpcs := rpcs st @ [GetMetaPartitionCall pid]\<rparr>))
        \<lparr>out = inactiveHeader @ map (\<lambda>node. NodeDetail (Some node)) (sort_key ID nodes)
            @ corruptHeader pkg
            @ map (\<lambda>pid. InfoRow (found pid)) (sort (CorruptMetaPartitionIDs d))
            @ lackReplicaHeader pkg,
         rpcs = DiagnoseMetaPartitionCall # map GetMetaNodeCall (sort (InactiveMetaNodes d))
            @ map GetMetaPartitionCall (sort (CorruptMetaPartitionIDs d))\<rparr>
        (sort (LackReplicaMetaPartitionIDs d)))"
  proof -
    let ?stA = "\<lparr>out = inactiveHeader @ map (\<lambda>node. NodeDetail (Some node)) (sort_key ID nodes) @ corruptHeader pkg,
         rpcs = DiagnoseMetaPartitionCall # map GetMetaNodeCall (sort (InactiveMetaNodes d))\<rparr>"
    let ?stB = "?stA\<lparr>out := out ?stA @ map (\<lambda>pid. InfoRow (found pid)) (sort (CorruptMetaPartitionIDs d)),
                  rpcs := rpcs ?stA @ map GetMetaPartitionCall (sort (CorruptMetaPartitionIDs d))\<rparr>"
    have 1: "listCorruptMetaPartitions client (sort (CorruptMetaPartitionIDs d)) ?stA = Continue ?stB"
      using c by (rule listCorruptMetaPartitions_fetched)
    have 2: "listLackReplicaMetaPartitions pkg client (sort (LackReplicaMetaPartitionIDs d))
        (?stB\<lparr>out := out ?stB @ lackReplicaHeader pkg\<rparr>) =
      Continue (foldl (\<lambda>st pid. listLackReplica pkg client (found pid)
                (st\<lparr>rpcs := rpcs st @ [GetMetaPartitionCall pid]\<rparr>))
         (?stB\<lparr>out := out ?stB @ lackReplicaHeader pkg\<rparr>) (sort (LackReplicaMetaPartitionIDs d)))"
      using l by (rule listLackReplicaMetaPartitions_fetched)
    have 3: "?stB\<lparr>out := out ?stB @ lackReplicaHeader pkg\<rparr> =
        \<lparr>out = inactiveHeader @ map (\<lambda>node. NodeDetail (Some node)) (sort_key ID nodes)
            @ corruptHeader pkg
            @ map (\<lambda>pid. InfoRow (found pid)) (sort (CorruptMetaPartitionIDs d))
            @ lackReplicaHeader pkg,
         rpcs = DiagnoseMetaPartitionCall # map GetMetaNodeCall (sort (InactiveMetaNodes d))
            @ map GetMetaPartitionCall (sort (CorruptMetaPartitionIDs d))\<rparr>"
      by simp
    have "checkCorrupt pkg client =
      Return (foldl (\<lambda>st pid. listLackReplica pkg client (found pid)
                (st\<lparr>rpcs := rpcs st @ [GetMetaPartitionCall pid]\<rparr>))
         (?stB\<lparr>out := out ?stB @ lackReplicaHeader pkg\<rparr>) (sort (LackReplicaMetaPartitionIDs d)))"
      unfolding checkCorrupt_sections [OF assms(1,2)] 1 andThen.simps 2 ..
    then show ?thesis
      unfolding 3 .
  qed
  show "sorted (map ID (sort_key ID nodes))"
    by simp
  assume "mset (InactiveMetaNodes d') = mset (InactiveMetaNodes d)
        \<and> mset (CorruptMetaPartitionIDs d') = mset (CorruptMetaPartitionIDs d)
        \<and> mset (LackReplicaMetaPartitionIDs d') = mset (LackReplicaMetaPartitionIDs d)"
  then have "sort (InactiveMetaNodes d') = sort (InactiveMetaNodes d)"
    and "sort (CorruptMetaPartitionIDs d') = sort (CorruptMetaPartitionIDs d)"
    and "sort (LackReplicaMetaPartitionIDs d') = sort (LackReplicaMetaPartitionIDs d)"
    by (blast intro: sort_mset_cong)+
  then show "checkCorrupt pkg (client\<lparr>DiagnoseMetaPartition := Inr d'\<rparr>) = checkCorrupt pkg client"
    using assms(1)
    by (simp add: checkCorrupt_def listInactiveMetaNodes_diagnosis
        listCorruptMetaPartitions_diagnosis listLackReplicaMetaPartitions_diagnosis)
qed

theorem diagnosis_lists_sorted_witness:
  "checkCorrupt pkg0 (cluster [''h2''] diagnosis3) =
      Return (foldl (\<lambda>st pid. listLackReplica pkg0 (cluster [''h2''] diagnosis3) (found0 pid)
                (st\<lparr>rpcs := rpcs st @ [GetMetaPartitionCall pid]\<rparr>))
        \<lparr>out = inactiveHeader @ [NodeDetail (Some node3), NodeDetail (Some node1)]
            @ corruptHeader pkg0
            @ [InfoRow (Some partition10), InfoRow (Some partition30)]
            @ lackReplicaHeader pkg0,
         rpcs = [DiagnoseMetaPartitionCall, GetMetaNodeCall ''h1:9'', GetMetaNodeCall ''h3:9'',
            GetMetaPartitionCall 10, GetMetaPartitionCall 30]\<rparr>
        [10, 30])
    \<and> sorted (map ID [node3, node1])
    \<and> checkCorrupt pkg0 ((cluster [''h2''] diagnosis3)\<lparr>DiagnoseMetaPartition := Inr diagnosis4\<rparr>)
        = checkCorrupt pkg0 (cluster [''h2''] diagnosis3)"
proof -
  let ?cl = "cluster [''h2''] diagnosis3"
  have 1: "DiagnoseMetaPartition ?cl = Inr diagnosis3"
    by (simp add: cluster_def)
  have a: "sort (InactiveMetaNodes diagnosis3) = [''h1:9'', ''h3:9'']"
    by (simp add: diagnosis3_def)
  have 2: "those (map (GetMetaNode ?cl) (sort (InactiveMetaNodes diagnosis3))) = Some [node1, node3]"
    by (simp add: a cluster_def)
  have 3: "\<forall>pid \<in> set (CorruptMetaPartitionIDs diagnosis3). GetMetaPartition ?cl pid = Inr (found0 pid)"
    by (simp add: diagnosis3_def cluster_def found0_def)
  have 4: "\<forall>pid \<in> set (LackReplicaMetaPartitionIDs diagnosis3). GetMetaPartition ?cl pid = Inr (found0 pid)"
    by (simp add: diagnosis3_def cluster_def found0_def)
  have 5: "mset (InactiveMetaNodes diagnosis4) = mset (InactiveMetaNodes diagnosis3)
        \<and> mset (CorruptMetaPartitionIDs diagnosis4) = mset (CorruptMetaPartitionIDs diagnosis3)
        \<and> mset (LackReplicaMetaPartitionIDs diagnosis4) = mset (LackReplicaMetaPartitionIDs diagnosis3)"
    by (simp add: diagnosis3_def diagnosis4_def add_mset_commute)
  have b: "sort_key ID [node1, node3] = [node3, node1]"
    by (simp add: node1_def node3_def)
  have c: "sort (CorruptMetaPartitionIDs diagnosis3) = [10, 30]"
    and d: "sort (LackReplicaMetaPartitionIDs diagnosis3) = [10, 30]"
    by (simp_all add: diagnosis3_def)
  have e: "map (\<lambda>pid. InfoRow (found0 pid)) [10, 30] = [InfoRow (Some partition10), InfoRow (Some partition30)]"
    by (simp add: found0_def)
  note diagnosis_lists_sorted [OF 1 2 3 4, of pkg0 diagnosis4, unfolded a b c d e]
  with 5 show ?thesis
    by simp
qed

text \<open>
  C7, as the claim has it, fails for the inactive nodes: the master reports \<open>h3:9\<close> and
  \<open>h1:9\<close>, whose nodes have the identifiers 2 and 7, and the row of \<open>h3:9\<close> is printed
  before the row of \<open>h1:9\<close>.
\<close>

theorem diagnosis_lists_sorted_counterexample:
  "checkCorrupt pkg0 (cluster [] diagnosis2) =
     Return \<lparr>out = inactiveHeader
          @ [NodeDetail (Some node3), NodeDetail (Some node1)]
          @ corruptHeader pkg0 @ lackReplicaHeader pkg0,
        rpcs = [DiagnoseMetaPartitionCall, GetMetaNodeCall ''h1:9'', GetMetaNodeCall ''h3:9'']\<rparr>
   \<and> MetaNodeInfo.Addr node3 = ''h3:9'' \<and> MetaNodeInfo.Addr node1 = ''h1:9''
   \<and> \<not> sorted [''h3:9'', ''h1:9'']"
  by (simp add: checkCorrupt_def listInactiveMetaNodes_def cluster_def diagnosis2_def Let_def
      node1_def node3_def)

text \<open>
  C8. In the listing of the corrupt partitions, the first partition that cannot be
  fetched ends the command: the rows of the partitions before it are printed, then the
  text \<^verbatim>\<open>Partition not found\<close> with the error; no later partition is fetched or
  printed, and the listing of the partitions that lack replicas is not reached. By
  contrast \<^verbatim>\<open>checkMetaPartition\<close> queries every replica of a fetched partition, whatever
  the answers.
\<close>

theorem corrupt_listing_fail_fast:
  assumes "DiagnoseMetaPartition client = Inr d"
    and "listInactiveMetaNodes client (sort (InactiveMetaNodes d))
          \<lparr>out = inactiveHeader, rpcs = [DiagnoseMetaPartitionCall]\<rparr> = Continue st1"
    and "sort (CorruptMetaPartitionIDs d) = ids1 @ pid # ids2"
    and "\<forall>p \<in> set ids1. GetMetaPartition client p = Inr (found p)"
    and "GetMetaPartition client pid = Inl e"
  shows "checkCorrupt pkg client =
      Return \<lparr>out = out st1 @ corruptHeader pkg @ map (\<lambda>p. InfoRow (found p)) ids1
                 @ [Text (''Partition not found, err:['' @ e @ '']'')],
              rpcs = rpcs st1 @ map GetMetaPartitionCall (ids1 @ [pid])\<rparr>
    \<and> (GetMetaPartition client q = Inr (Some p) \<longrightarrow>
         calls (checkMetaPartition q client) =
           GetMetaPartitionCall q
             # map (\<lambda>r. MetaNodeGetPartitionCall (hostOf (MetaReplicaInfo.Addr r)) (MetaPartitionInfo.PartitionID p))
                 (Replicas p))"
proof (intro conjI impI)
  have "listCorruptMetaPartitions client (ids1 @ pid # ids2) (st1\<lparr>out := out st1 @ corruptHeader pkg\<rparr>) =
      Return \<lparr>out = out st1 @ corruptHeader pkg @ map (\<lambda>p. InfoRow (found p)) ids1
                 @ [Text (''Partition not found, err:['' @ e @ '']'')],
              rpcs = rpcs st1 @ map GetMetaPartitionCall (ids1 @ [pid])\<rparr>"
    using listCorruptMetaPartitions_failed [OF assms(4,5)] by simp
  then show "checkCorrupt pkg client =
      Return \<lparr>out = out st1 @ corruptHeader pkg @ map (\<lambda>p. InfoRow (found p)) ids1
                 @ [Text (''Partition not found, err:['' @ e @ '']'')],
              rpcs = rpcs st1 @ map GetMetaPartitionCall (ids1 @ [pid])\<rparr>"
    by (simp only: checkCorrupt_after_nodes [OF assms(1,2)] assms(3) andThen.simps)
  show "calls (checkMetaPartition q client) =
           GetMetaPartitionCall q
             # map (\<lambda>r. MetaNodeGetPartitionCall (hostOf (MetaReplicaInfo.Addr r)) (MetaPartitionInfo.PartitionID p))
                 (Replicas p)"
    if "GetMetaPartition client q = Inr (Some p)"
    using that by (rule checkMetaPartition_calls)
qed

theorem corrupt_listing_fail_fast_witness:
  "checkCorrupt pkg0 (cluster [] diagnosis0) =
      Return \<lparr>out = (inactiveHeader @ [NodeDetail (Some node3), NodeDetail (Some node1)])
                 @ corruptHeader pkg0 @ [InfoRow (Some partition10)]
                 @ [Text ''Partition not found, err:[meta partition not exists]''],
              rpcs = [DiagnoseMetaPartitionCall, GetMetaNodeCall ''h1:9'', GetMetaNodeCall ''h3:9'',
                 GetMetaPartitionCall 10, GetMetaPartitionCall 20]\<rparr>
    \<and> calls (checkMetaPartition 10 (cluster [] diagnosis0)) =
         [GetMetaPartitionCall 10, MetaNodeGetPartitionCall ''h1'' 10,
          MetaNodeGetPartitionCall ''h2'' 10, MetaNodeGetPartitionCall ''h3'' 10]"
proof -
  let ?cl = "cluster [] diagnosis0"
  let ?st1 = "\<lparr>out = inactiveHeader @ [NodeDetail (Some node3), NodeDetail (Some node1)],
       rpcs = [DiagnoseMetaPartitionCall, GetMetaNodeCall ''h1:9'', GetMetaNodeCall ''h3:9'']\<rparr>"
  have 1: "DiagnoseMetaPartition ?cl = Inr diagnosis0"
    by (simp add: cluster_def)
  have 2: "listInactiveMetaNodes ?cl (sort (InactiveMetaNodes diagnosis0))
          \<lparr>out = inactiveHeader, rpcs = [DiagnoseMetaPartitionCall]\<rparr> = Continue ?st1"
    using cluster_nodes [of "[]" diagnosis0] by (simp add: diagnosis0_def)
  have 3: "sort (CorruptMetaPartitionIDs diagnosis0) = [10] @ 20 # [30]"
    by (simp add: diagnosis0_def)
  have 4: "\<forall>p \<in> set [10]. GetMetaPartition ?cl p = Inr (found0 p)"
    by (simp add: cluster_def found0_def)
  have 5: "GetMetaPartition ?cl 20 = Inl ''meta partition not exists''"
    by (simp add: cluster_def)
  have 6: "GetMetaPartition ?cl 10 = Inr (Some partition10)"
    by (simp add: cluster_def)
  show ?thesis
    using corrupt_listing_fail_fast [OF 1 2 3 4 5, of pkg0 10 partition10] 6
    by (simp add: found0_def partition10_def replicasAt_def hostOf_def)
qed

text \<open>
  C10. In the listing of the partitions that lack replicas, the first partition that
  cannot be fetched ends the command: after the blocks of the partitions before it, the
  text \<^verbatim>\<open>Partition not found\<close> with the error is printed and no later partition is
  fetched. A replica whose query fails gets the row \<^verbatim>\<open>0\<close> over the replica number with
  \<^verbatim>\<open>no data\<close>, and the loop goes on: every replica is queried and gets one row.
\<close>

theorem lack_replica_listing_fail_fast:
  assumes "DiagnoseMetaPartition client = Inr d"
    and "listInactiveMetaNodes client (sort (InactiveMetaNodes d))
          \<lparr>out = inactiveHeader, rpcs = [DiagnoseMetaPartitionCall]\<rparr> = Continue st1"
    and "\<forall>p \<in> set (CorruptMetaPartitionIDs d). GetMetaPartition client p = Inr (found p)"
    and "sort (LackReplicaMetaPartitionIDs d) = ids1 @ pid # ids2"
    and "\<forall>p \<in> set ids1. GetMetaPartition client p = Inr (found p)"
    and "GetMetaPartition client pid = Inl e"
    and "pre = foldl (\<lambda>st p. listLackReplica pkg client (found p)
                (st\<lparr>rpcs := rpcs st @ [GetMetaPartitionCall p]\<rparr>))
          \<lparr>out = out st1 @ corruptHeader pkg
              @ map (\<lambda>p. InfoRow (found p)) (sort (CorruptMetaPartitionIDs d))
              @ lackReplicaHeader pkg,
           rpcs = rpcs st1 @ map GetMetaPartitionCall (sort (CorruptMetaPartitionIDs d))\<rparr> ids1"
  shows "checkCorrupt pkg client =
      Return \<lparr>out = out pre @ [Text (''Partition not found, err:['' @ e @ '']'')],
              rpcs = rpcs pre @ [GetMetaPartitionCall pid]\<rparr>
    \<and> (MetaNodeGetPartition client (hostOf (MetaReplicaInfo.Addr r)) (MetaPartitionInfo.PartitionID q) = Inl e' \<longrightarrow>
         listReplica client q st r =
           st\<lparr>out := out st @ [ColorRow [] [] [] (MetaReplicaInfo.Addr r)
                   (''0/'' @ string_of_int (ReplicaNum q)) ''no data''],
              rpcs := rpcs st @ [MetaNodeGetPartitionCall (hostOf (MetaReplicaInfo.Addr r))
                   (MetaPartitionInfo.PartitionID q)]\<rparr>)
    \<and> rpcs (foldl (listReplica client q) st rs) =
         rpcs st @ map (\<lambda>r. MetaNodeGetPartitionCall (hostOf (MetaReplicaInfo.Addr r))
                   (MetaPartitionInfo.PartitionID q)) rs
    \<and> length (out (foldl (listReplica client q) st rs)) = length (out st) + length rs"
proof (intro conjI impI)
  let ?stA = "st1\<lparr>out := out st1 @ corruptHeader pkg\<rparr>"
  let ?stB = "?stA\<lparr>out := out ?stA @ map (\<lambda>p. InfoRow (found p)) (sort (CorruptMetaPartitionIDs d)),
                  rpcs := rpcs ?stA @ map GetMetaPartitionCall (sort (CorruptMetaPartitionIDs d))\<rparr>"
  let ?stC = "\<lparr>out = out st1 @ corruptHeader pkg
              @ map (\<lambda>p. InfoRow (found p)) (sort (CorruptMetaPartitionIDs d))
              @ lackReplicaHeader pkg,
           rpcs = rpcs st1 @ map GetMetaPartitionCall (sort (CorruptMetaPartitionIDs d))\<rparr>"
  have c: "\<forall>p \<in> set (sort (CorruptMetaPartitionIDs d)). GetMetaPartition client p = Inr (found p)"
    using assms(3) by simp
  have 1: "listCorruptMetaPartitions client (sort (CorruptMetaPartitionIDs d)) ?stA = Continue ?stB"
    using c by (rule listCorruptMetaPartitions_fetched)
  have 2: "?stB\<lparr>out := out ?stB @ lackReplicaHeader pkg\<rparr> = ?stC"
    by simp
  have 3: "listLackReplicaMetaPartitions pkg client (ids1 @ pid # ids2) ?stC =
      Return (pre\<lparr>out := out pre @ [Text (''Partition not found, err:['' @ e @ '']'')],
                 rpcs := rpcs pre @ [GetMetaPartitionCall pid]\<rparr>)"
    using listLackReplicaMetaPartitions_failed [OF assms(5,6), of pkg ids2 ?stC]
    by (simp only: Let_def assms(7))
  have 4: "pre\<lparr>out := out pre @ [Text (''Partition not found, err:['' @ e @ '']'')],
                 rpcs := rpcs pre @ [GetMetaPartitionCall pid]\<rparr> =
      \<lparr>out = out pre @ [Text (''Partition not found, err:['' @ e @ '']'')],
              rpcs = rpcs pre @ [GetMetaPartitionCall pid]\<rparr>"
    by simp
  show "checkCorrupt pkg client =
      Return \<lparr>out = out pre @ [Text (''Partition not found, err:['' @ e @ '']'')],
              rpcs = rpcs pre @ [GetMetaPartitionCall pid]\<rparr>"
    unfolding checkCorrupt_after_nodes [OF assms(1,2)] 1 andThen.simps 2 assms(4) 3 4 ..
  show "listReplica client q st r =
           st\<lparr>out := out st @ [ColorRow [] [] [] (MetaReplicaInfo.Addr r)
                   (''0/'' @ string_of_int (ReplicaNum q)) ''no data''],
              rpcs := rpcs st @ [MetaNodeGetPartitionCall (hostOf (MetaReplicaInfo.Addr r))
                   (MetaPartitionInfo.PartitionID q)]\<rparr>"
    if "MetaNodeGetPartition client (hostOf (MetaReplicaInfo.Addr r)) (MetaPartitionInfo.PartitionID q) = Inl e'"
    using that by (simp add: listReplica_def Let_def digit_def)
  show "rpcs (foldl (listReplica client q) st rs) =
         rpcs st @ map (\<lambda>r. MetaNodeGetPartitionCall (hostOf (MetaReplicaInfo.Addr r))
                   (MetaPartitionInfo.PartitionID q)) rs"
    by (rule listReplicas_rpcs)
  show "length (out (foldl (listReplica client q) st rs)) = length (out st) + length rs"
    by (rule listReplicas_out_length)
qed

theorem lack_replica_listing_fail_fast_witness:
  "checkCorrupt pkg0 (cluster [''h2''] diagnosis1) =
      Return \<lparr>out = ((inactiveHeader @ [NodeDetail (Some node3), NodeDetail (Some node1)])
                 @ corruptHeader pkg0
                 @ [InfoRow (Some partition10), InfoRow (Some partition30)]
                 @ lackReplicaHeader pkg0
                 @ [InfoRow (Some partition10),
                    ColorRow [] [] [] ''h1:9'' ''3/3'' ''h1:9; h2:9; h3:9'',
                    ColorRow [] [] [] ''h2:9'' ''0/3'' ''no data'',
                    ColorRow [] [] [] ''h3:9'' ''3/3'' ''h1:9; h2:9; h3:9'',
                    replicaSeparator pkg0])
                 @ [Text ''Partition not found, err:[meta partition not exists]''],
              rpcs = [DiagnoseMetaPartitionCall, GetMetaNodeCall ''h1:9'', GetMetaNodeCall ''h3:9'',
                 GetMetaPartitionCall 10, GetMetaPartitionCall 30,
                 GetMetaPartitionCall 10, MetaNodeGetPartitionCall ''h1'' 10,
                 MetaNodeGetPartitionCall ''h2'' 10, MetaNodeGetPartitionCall ''h3'' 10]
                 @ [GetMetaPartitionCall 20]\<rparr>
    \<and> listReplica (cluster [''h2''] diagnosis1) partition10 \<lparr>out = [], rpcs = []\<rparr>
          \<lparr>MetaReplicaInfo.Addr = ''h2:9''\<rparr> =
        \<lparr>out = [ColorRow [] [] [] ''h2:9'' ''0/3'' ''no data''],
         rpcs = [MetaNodeGetPartitionCall ''h2'' 10]\<rparr>
    \<and> rpcs (foldl (listReplica (cluster [''h2''] diagnosis1) partition10) \<lparr>out = [], rpcs = []\<rparr>
          (Replicas partition10)) =
        [MetaNodeGetPartitionCall ''h1'' 10, MetaNodeGetPartitionCall ''h2'' 10,
         MetaNodeGetPartitionCall ''h3'' 10]
    \<and> length (out (foldl (listReplica (cluster [''h2''] diagnosis1) partition10) \<lparr>out = [], rpcs = []\<rparr>
          (Replicas partition10))) = 3"
proof -
  let ?cl = "cluster [''h2''] diagnosis1"
  let ?st1 = "\<lparr>out = inactiveHeader @ [NodeDetail (Some node3), NodeDetail (Some node1)],
       rpcs = [DiagnoseMetaPartitionCall, GetMetaNodeCall ''h1:9'', GetMetaNodeCall ''h3:9'']\<rparr>"
  let ?pre = "\<lparr>out = (inactiveHeader @ [NodeDetail (Some node3), NodeDetail (Some node1)])
                 @ corruptHeader pkg0
                 @ [InfoRow (Some partition10), InfoRow (Some partition30)]
                 @ lackReplicaHeader pkg0
                 @ [InfoRow (Some partition10),
                    ColorRow [] [] [] ''h1:9'' ''3/3'' ''h1:9; h2:9; h3:9'',
                    ColorRow [] [] [] ''h2:9'' ''0/3'' ''no data'',
                    ColorRow [] [] [] ''h3:9'' ''3/3'' ''h1:9; h2:9; h3:9'',
                    replicaSeparator pkg0],
              rpcs = [DiagnoseMetaPartitionCall, GetMetaNodeCall ''h1:9'', GetMetaNodeCall ''h3:9'',
                 GetMetaPartitionCall 10, GetMetaPartitionCall 30,
                 GetMetaPartitionCall 10, MetaNodeGetPartitionCall ''h1'' 10,
                 MetaNodeGetPartitionCall ''h2'' 10, MetaNodeGetPartitionCall ''h3'' 10]\<rparr>"
  have 1: "DiagnoseMetaPartition ?cl = Inr diagnosis1"
    by (simp add: cluster_def)
  have 2: "listInactiveMetaNodes ?cl (sort (InactiveMetaNodes diagnosis1))
          \<lparr>out = inactiveHeader, rpcs = [DiagnoseMetaPartitionCall]\<rparr> = Continue ?st1"
    using cluster_nodes [of "[''h2'']" diagnosis1] by (simp add: diagnosis1_def)
  have 3: "\<forall>p \<in> set (CorruptMetaPartitionIDs diagnosis1). GetMetaPartition ?cl p = Inr (found0 p)"
    by (simp add: diagnosis1_def cluster_def found0_def)
  have 4: "sort (LackReplicaMetaPartitionIDs diagnosis1) = [10] @ 20 # [30]"
    by (simp add: diagnosis1_def)
  have 5: "\<forall>p \<in> set [10]. GetMetaPartition ?cl p = Inr (found0 p)"
    by (simp add: cluster_def found0_def)
  have 6: "GetMetaPartition ?cl 20 = Inl ''meta partition not exists''"
    by (simp add: cluster_def)
  have c: "sort (CorruptMetaPartitionIDs diagnosis1) = [10, 30]"
    by (simp add: diagnosis1_def)
  have 7: "?pre = foldl (\<lambda>st p. listLackReplica pkg0 ?cl (found0 p)
                (st\<lparr>rpcs := rpcs st @ [GetMetaPartitionCall p]\<rparr>))
          \<lparr>out = out ?st1 @ corruptHeader pkg0
              @ map (\<lambda>p. InfoRow (found0 p)) (sort (CorruptMetaPartitionIDs diagnosis1))
              @ lackReplicaHeader pkg0,
           rpcs = rpcs ?st1 @ map GetMetaPartitionCall (sort (CorruptMetaPartitionIDs diagnosis1))\<rparr> [10]"
    by (simp add: c found0_def listLackReplica_def listReplica_def cluster_def partition10_def
        replicasAt_def peersAt_def hostOf_def string_of_int_def digit_def Let_def)
  have 8: "MetaNodeGetPartition ?cl (hostOf (MetaReplicaInfo.Addr \<lparr>MetaReplicaInfo.Addr = ''h2:9''\<rparr>))
      (MetaPartitionInfo.PartitionID partition10) = Inl ''connection refused''"
    by (simp add: cluster_def hostOf_def)
  show ?thesis
    using lack_replica_listing_fail_fast [OF 1 2 3 4 5 6 7,
        of "\<lparr>MetaReplicaInfo.Addr = ''h2:9''\<rparr>" partition10 "''connection refused''"
          "\<lparr>out = [], rpcs = []\<rparr>" "Replicas partition10"] 8
    by (simp add: partition10_def replicasAt_def hostOf_def string_of_int_def digit_def)
qed

end
